theory Spec2Isabelle
  imports Complex_Main "HOL-Library.AList" "HOL-Library.Sublist"
begin

section \<open>JavaScript values and JSON text\<close>

text \<open>
  The client in \<^verbatim>\<open>frontend/app.js\<close> keeps plain JavaScript values in its state: the
  settings object, whatever an inbound frame carries, the content of a message. They
  are modelled by one datatype. Numbers are the finite ones, as reals: the code never
  computes with them, it stores, compares and serialises them. An object is an
  association list in insertion order, read through \<open>map_of\<close>.
\<close>

datatype jvalue =
    JUndefined
  | JNull
  | JBool bool
  | JNum real
  | JStr string
  | JArr "jvalue list"
  | JObj "(string \<times> jvalue) list"

datatype js_error =
  SyntaxError | TypeError | InvalidStateError | SecurityError | FetchFailed | HttpError nat

text \<open>The truth value JavaScript gives a value in a condition (\<^verbatim>\<open>if (v)\<close>, \<^verbatim>\<open>a && b\<close>).\<close>

fun truthy :: "jvalue \<Rightarrow> bool" where
  "truthy JUndefined = False"
| "truthy JNull = False"
| "truthy (JBool b) = b"
| "truthy (JNum x) = (x \<noteq> 0)"
| "truthy (JStr s) = (s \<noteq> [])"
| "truthy (JArr xs) = True"
| "truthy (JObj kvs) = True"

text \<open>
  Property read \<^verbatim>\<open>v.k\<close>, for the property names the client reads (\<^verbatim>\<open>type\<close>,
  \<^verbatim>\<open>isTyping\<close>, \<^verbatim>\<open>response\<close>, \<^verbatim>\<open>error\<close> and the settings keys): a read on
  \<^verbatim>\<open>null\<close> or \<^verbatim>\<open>undefined\<close> raises TypeError, a missing property reads as
  \<^verbatim>\<open>undefined\<close>, and a number, boolean, string or array has none of these names.
\<close>

fun get_prop :: "jvalue \<Rightarrow> string \<Rightarrow> js_error + jvalue" where
  "get_prop JUndefined k = Inl TypeError"
| "get_prop JNull k = Inl TypeError"
| "get_prop (JObj kvs) k = Inr (case map_of kvs k of None \<Rightarrow> JUndefined | Some v \<Rightarrow> v)"
| "get_prop v k = Inr JUndefined"

text \<open>The same read on an object held as its list of properties.\<close>

definition field :: "(string \<times> jvalue) list \<Rightarrow> string \<Rightarrow> jvalue" where
  "field obj k = (case map_of obj k of None \<Rightarrow> JUndefined | Some v \<Rightarrow> v)"

text \<open>
  A text that travels (a WebSocket frame, an HTTP body, a localStorage entry) is either
  the JSON text of a value, represented by that value, or a text that is not JSON.
  \<^verbatim>\<open>JSON.stringify\<close> leaves out the properties of an object whose value is
  \<^verbatim>\<open>undefined\<close> and writes \<^verbatim>\<open>null\<close> for such an array element; \<^verbatim>\<open>JSON.parse\<close>
  raises SyntaxError on a text that is not JSON.
\<close>

datatype wire = Json jvalue | Plain string

function jsonify :: "jvalue \<Rightarrow> jvalue" where
  "jsonify (JObj kvs) =
     JObj (map (\<lambda>p. (fst p, jsonify (snd p))) (filter (\<lambda>p. snd p \<noteq> JUndefined) kvs))"
| "jsonify (JArr xs) = JArr (map (\<lambda>x. if x = JUndefined then JNull else jsonify x) xs)"
| "jsonify JUndefined = JUndefined"
| "jsonify JNull = JNull"
| "jsonify (JBool b) = JBool b"
| "jsonify (JNum x) = JNum x"
| "jsonify (JStr s) = JStr s"
  by pat_completeness auto
termination
proof (relation "measure size")
  have in_array: "size x \<le> size_list size xs" if "x \<in> set xs" for x :: jvalue and xs
    using that by (induction xs) auto
  have in_object: "size (snd p) < Suc (size_list (size_prod (\<lambda>_. 0) size) kvs)"
    if "p \<in> set kvs" for p :: "string \<times> jvalue" and kvs
    using that by (induction kvs) (auto simp: less_Suc_eq_le)
  show "wf (measure (size :: jvalue \<Rightarrow> nat))"
    by simp
  show "(snd p, JObj kvs) \<in> measure size"
    if "p \<in> set (filter (\<lambda>p. snd p \<noteq> JUndefined) kvs)" for kvs and p :: "string \<times> jvalue"
    using that in_object [of p kvs] by simp
  show "(x, JArr xs) \<in> measure size" if "x \<in> set xs" and "x \<noteq> JUndefined" for xs x
    using that in_array [of x xs] by (simp add: less_Suc_eq_le)
qed

definition JSON_stringify :: "jvalue \<Rightarrow> wire" where
  "JSON_stringify v = Json (jsonify v)"

fun JSON_parse :: "wire \<Rightarrow> js_error + jvalue" where
  "JSON_parse (Json v) = Inr v"
| "JSON_parse (Plain s) = Inl SyntaxError"

text \<open>A string is truthy unless it is empty; the JSON text of a value is never empty.\<close>

fun nonempty :: "wire \<Rightarrow> bool" where
  "nonempty (Json v) = True"
| "nonempty (Plain s) = (s \<noteq> [])"

text \<open>
  Object spread \<^verbatim>\<open>{...a, ...b}\<close>: the own enumerable properties of \<open>b\<close> are
  written over those of \<open>a\<close>. A string and an array spread their elements under
  their decimal indices; \<^verbatim>\<open>null\<close>, \<^verbatim>\<open>undefined\<close>, a number and a boolean
  spread nothing.
\<close>

function show_nat :: "nat \<Rightarrow> string" where
  "show_nat n =
     (if n < 10 then [char_of (48 + n)] else show_nat (n div 10) @ [char_of (48 + n mod 10)])"
  by pat_completeness auto
termination
  by (relation "measure id") auto

fun own_props :: "jvalue \<Rightarrow> (string \<times> jvalue) list" where
  "own_props (JObj kvs) = kvs"
| "own_props (JArr xs) = zip (map show_nat [0..<length xs]) xs"
| "own_props (JStr s) = zip (map show_nat [0..<length s]) (map (\<lambda>c. JStr [c]) s)"
| "own_props v = []"

definition spread :: "(string \<times> jvalue) list \<Rightarrow> (string \<times> jvalue) list \<Rightarrow> (string \<times> jvalue) list" where
  "spread a b = fold (\<lambda>p. AList.update (fst p) (snd p)) b a"

text \<open>
  A character is a code unit below 256. \<^verbatim>\<open>String.prototype.trim\<close> strips white space
  and line terminators from both ends; among these code units they are tab, line feed,
  vertical tab, form feed, carriage return, space and the no-break space U+00A0. (The
  others it strips, U+FEFF, U+2028, U+2029 and the rest of the space separators, lie
  above 255.)
\<close>

definition is_space :: "char \<Rightarrow> bool" where
  "is_space c =
     (c \<in> set [CHR 0x09, CHR 0x0A, CHR 0x0B, CHR 0x0C, CHR 0x0D, CHR 0x20, CHR 0xA0])"

definition trim :: "string \<Rightarrow> string" where
  "trim s = rev (dropWhile is_space (rev (dropWhile is_space s)))"

section \<open>The state of the page\<close>

text \<open>
  \<^verbatim>\<open>CONFIG\<close> and the record \<^verbatim>\<open>state\<close> of the source, the three elements of the
  document the messaging logic reads or writes, and the platform the handlers run on:
  the WebSocket objects made so far with their \<^verbatim>\<open>readyState\<close>, the frames handed to
  them, the \<^verbatim>\<open>fetch\<close> requests issued and the continuations waiting on them, the
  pending \<^verbatim>\<open>setTimeout\<close> callbacks, \<^verbatim>\<open>localStorage\<close> and the clock read by
  \<^verbatim>\<open>new Date()\<close>. What only paints is left out: the theme, scrolling, the typing
  indicator, the character count and the echo of the settings in their controls.
\<close>

definition apiBaseUrl :: string where "apiBaseUrl = ''http://localhost:8000''"
definition wsUrl :: string where "wsUrl = ''ws://localhost:8000/ws/chat''"
definition defaultTemperature :: jvalue where "defaultTemperature = JNum 0.7"
definition defaultMaxLength :: jvalue where "defaultMaxLength = JNum 1000"
definition useWebSocket_default :: jvalue where "useWebSocket_default = JBool True"

datatype readyState = CONNECTING | OPEN | CLOSING | CLOSED

record message =
  type :: string
  content :: jvalue
  timestamp :: string

text \<open>
  The children of \<^verbatim>\<open>chatContainer\<close>: the welcome section (with whether it is
  displayed), a rendered message, and the notices of \<^verbatim>\<open>showError\<close> and
  \<^verbatim>\<open>showSuccess\<close>, numbered so that the timer of a notice removes that notice.
\<close>

datatype node =
    WelcomeSection bool
  | MessageEl message
  | ErrorEl nat jvalue
  | SuccessEl nat string

record request =
  http_method :: string
  url :: string
  headers :: "(string \<times> string) list"
  body :: "wire option"

datatype continuation = ChatReply | ResetReply | HealthReply

datatype fetch_result = Rejected | Response nat wire

datatype callback = Reconnect | RemoveEl nat

record world =
  messages :: "message list"
  isTyping :: jvalue
  websocket :: "nat option"
  settings :: "(string \<times> jvalue) list"
  messageInput :: string
  chatContainer :: "node list"
  connectionStatus :: bool
  sockets :: "readyState list"
  blocked :: bool
  frames :: "(nat \<times> wire) list"
  requests :: "request list"
  awaiting :: "continuation list"
  timers :: "(nat \<times> callback) list"
  localStorage :: "(string \<times> wire) list"
  clock :: string
  next_el :: nat

text \<open>\<^verbatim>\<open>ws.readyState\<close> of the socket a handle names.\<close>

definition ready :: "world \<Rightarrow> nat \<Rightarrow> readyState option" where
  "ready w h = (if h < length (sockets w) then Some (sockets w ! h) else None)"

text \<open>The test \<^verbatim>\<open>state.websocket?.readyState === WebSocket.OPEN\<close>.\<close>

definition websocket_open :: "world \<Rightarrow> bool" where
  "websocket_open w = (case websocket w of None \<Rightarrow> False | Some h \<Rightarrow> ready w h = Some OPEN)"

section \<open>The conversation log and the notices\<close>

definition updateConnectionStatus :: "bool \<Rightarrow> world \<Rightarrow> world" where
  "updateConnectionStatus c w = w\<lparr>connectionStatus := c\<rparr>"

definition addMessage :: "string \<Rightarrow> jvalue \<Rightarrow> world \<Rightarrow> world" where
  "addMessage ty c w =
     (let m = \<lparr>type = ty, content = c, timestamp = clock w\<rparr>
      in w\<lparr>messages := messages w @ [m], chatContainer := chatContainer w @ [MessageEl m]\<rparr>)"

text \<open>
  \<^verbatim>\<open>setTyping\<close> stores its argument as it is; the typing indicator and the disabled
  send button only show it.
\<close>

definition setTyping :: "jvalue \<Rightarrow> world \<Rightarrow> world" where
  "setTyping v w = w\<lparr>isTyping := v\<rparr>"

definition showError :: "jvalue \<Rightarrow> world \<Rightarrow> world" where
  "showError msg w =
     w\<lparr>chatContainer := chatContainer w @ [ErrorEl (next_el w) msg],
       timers := timers w @ [(5000, RemoveEl (next_el w))],
       next_el := Suc (next_el w)\<rparr>"

definition showSuccess :: "string \<Rightarrow> world \<Rightarrow> world" where
  "showSuccess msg w =
     w\<lparr>chatContainer := chatContainer w @ [SuccessEl (next_el w) msg],
       timers := timers w @ [(3000, RemoveEl (next_el w))],
       next_el := Suc (next_el w)\<rparr>"

fun is_el :: "nat \<Rightarrow> node \<Rightarrow> bool" where
  "is_el n (ErrorEl k msg) = (k = n)"
| "is_el n (SuccessEl k msg) = (k = n)"
| "is_el n x = False"

text \<open>\<^verbatim>\<open>document.querySelector('.welcome-section')\<close>, hidden when found: the first one.\<close>

fun hide_welcome :: "node list \<Rightarrow> node list" where
  "hide_welcome [] = []"
| "hide_welcome (WelcomeSection d # xs) = WelcomeSection False # xs"
| "hide_welcome (x # xs) = x # hide_welcome xs"

section \<open>Sending\<close>

text \<open>
  \<^verbatim>\<open>sendViaRestAPI\<close> runs up to its \<^verbatim>\<open>await fetch\<close> when it is called: the busy
  flag is set and the request is issued. The rest of its body runs when the platform
  settles the request, as \<open>sendViaRestAPI_resume\<close>.
\<close>

definition chat_request :: "string \<Rightarrow> world \<Rightarrow> request" where
  "chat_request msg w =
     \<lparr>http_method = ''POST'', url = apiBaseUrl @ ''/api/chat'',
      headers = [(''Content-Type'', ''application/json'')],
      body = Some (JSON_stringify (JObj
        [(''message'', JStr msg),
         (''temperature'', field (settings w) ''temperature''),
         (''max_length'', field (settings w) ''maxLength'')]))\<rparr>"

definition sendViaRestAPI :: "string \<Rightarrow> world \<Rightarrow> world" where
  "sendViaRestAPI msg w =
     (let w1 = setTyping (JBool True) w
      in w1\<lparr>requests := requests w1 @ [chat_request msg w1],
            awaiting := awaiting w1 @ [ChatReply]\<rparr>)"

definition ok :: "nat \<Rightarrow> bool" where
  "ok status = (200 \<le> status \<and> status \<le> 299)"

text \<open>
  The \<^verbatim>\<open>try\<close> block after the \<^verbatim>\<open>await\<close>: a rejected fetch, a status that is not
  ok, a body that is not JSON and a body that is \<^verbatim>\<open>null\<close> all raise into the
  \<^verbatim>\<open>catch\<close>.
\<close>

definition chat_reply :: "fetch_result \<Rightarrow> js_error + jvalue" where
  "chat_reply r =
     (case r of
        Rejected \<Rightarrow> Inl FetchFailed
      | Response status b \<Rightarrow>
          if \<not> ok status then Inl (HttpError status)
          else (case JSON_parse b of
                  Inl e \<Rightarrow> Inl e
                | Inr data \<Rightarrow> get_prop data ''response''))"

definition sendViaRestAPI_resume :: "fetch_result \<Rightarrow> world \<Rightarrow> world" where
  "sendViaRestAPI_resume r w =
     setTyping (JBool False)
       (case chat_reply r of
          Inr v \<Rightarrow> addMessage ''bot'' v w
        | Inl e \<Rightarrow>
            showError (JStr ''Failed to get response from the chatbot. Please try again.'') w)"

text \<open>
  \<^verbatim>\<open>WebSocket.send\<close>: it raises InvalidStateError on a socket that is still
  connecting, hands the frame to an open one, and discards it on a closing or closed
  one. The call \<^verbatim>\<open>state.websocket.send(...)\<close> raises TypeError when
  \<^verbatim>\<open>state.websocket\<close> is \<^verbatim>\<open>null\<close> (\<open>websocket_send\<close>); a handle that names no
  socket is treated the same way.
\<close>

definition ws_send :: "nat \<Rightarrow> wire \<Rightarrow> world \<Rightarrow> js_error + world" where
  "ws_send h d w =
     (case ready w h of
        None \<Rightarrow> Inl TypeError
      | Some CONNECTING \<Rightarrow> Inl InvalidStateError
      | Some OPEN \<Rightarrow> Inr (w\<lparr>frames := frames w @ [(h, d)]\<rparr>)
      | Some CLOSING \<Rightarrow> Inr w
      | Some CLOSED \<Rightarrow> Inr w)"

definition chat_frame :: "string \<Rightarrow> world \<Rightarrow> wire" where
  "chat_frame msg w =
     JSON_stringify (JObj
       [(''message'', JStr msg),
        (''temperature'', field (settings w) ''temperature''),
        (''maxLength'', field (settings w) ''maxLength'')])"

definition websocket_send :: "string \<Rightarrow> world \<Rightarrow> js_error + world" where
  "websocket_send msg w =
     (case websocket w of
        None \<Rightarrow> Inl TypeError
      | Some h \<Rightarrow> ws_send h (chat_frame msg w) w)"

definition sendViaWebSocket :: "string \<Rightarrow> world \<Rightarrow> world" where
  "sendViaWebSocket msg w =
     (case websocket_send msg w of
        Inr w' \<Rightarrow> w'
      | Inl e \<Rightarrow>
          sendViaRestAPI msg
            (showError (JStr ''Failed to send message via WebSocket. Trying REST API...'') w))"

text \<open>
  \<^verbatim>\<open>sendMessage\<close> reads the input box; nothing in it suspends before the transport is
  chosen, and what follows its \<^verbatim>\<open>await\<close> does nothing.
\<close>

definition sendMessage :: "world \<Rightarrow> world" where
  "sendMessage w =
     (let msg = trim (messageInput w) in
      if msg = [] \<or> truthy (isTyping w) then w
      else
        let w1 = addMessage ''user'' (JStr msg) w;
            w2 = w1\<lparr>messageInput := []\<rparr>;
            w3 = w2\<lparr>chatContainer := hide_welcome (chatContainer w2)\<rparr>
        in if truthy (field (settings w3) ''useWebSocket'') \<and> websocket_open w3
           then sendViaWebSocket msg w3
           else sendViaRestAPI msg w3)"

section \<open>The persistent channel\<close>

text \<open>
  \<^verbatim>\<open>new WebSocket(CONFIG.wsUrl)\<close> makes a socket in state CONNECTING and installs the
  four handlers on it; where the platform refuses the URL (\<open>blocked\<close>) the
  constructor raises and the \<^verbatim>\<open>catch\<close> runs, leaving \<^verbatim>\<open>state.websocket\<close> as it was.
\<close>

definition connectWebSocket :: "world \<Rightarrow> world" where
  "connectWebSocket w =
     (if websocket_open w then w
      else if blocked w then updateConnectionStatus False w
      else w\<lparr>sockets := sockets w @ [CONNECTING], websocket := Some (length (sockets w))\<rparr>)"

text \<open>\<^verbatim>\<open>ws.close()\<close>: a connecting or open socket starts closing, any other stays.\<close>

definition ws_close :: "nat \<Rightarrow> readyState list \<Rightarrow> readyState list" where
  "ws_close h ss =
     (if h < length ss \<and> (ss ! h = CONNECTING \<or> ss ! h = OPEN) then ss[h := CLOSING] else ss)"

definition disconnectWebSocket :: "world \<Rightarrow> world" where
  "disconnectWebSocket w =
     (case websocket w of
        None \<Rightarrow> w
      | Some h \<Rightarrow>
          updateConnectionStatus False (w\<lparr>sockets := ws_close h (sockets w), websocket := None\<rparr>))"

definition ws_onopen :: "world \<Rightarrow> world" where
  "ws_onopen w = updateConnectionStatus True w"

text \<open>
  \<^verbatim>\<open>onmessage\<close>: \<^verbatim>\<open>JSON.parse\<close> and the read of \<^verbatim>\<open>data.type\<close> may raise, before
  anything is written; nothing catches it.
\<close>

definition ws_onmessage :: "wire \<Rightarrow> world \<Rightarrow> js_error + world" where
  "ws_onmessage d w =
     (case JSON_parse d of
        Inl e \<Rightarrow> Inl e
      | Inr data \<Rightarrow>
          (case get_prop data ''type'' of
             Inl e \<Rightarrow> Inl e
           | Inr t \<Rightarrow>
               if t = JStr ''typing'' then
                 map_sum id (\<lambda>v. setTyping v w) (get_prop data ''isTyping'')
               else if t = JStr ''message'' then
                 map_sum id (\<lambda>v. addMessage ''bot'' v (setTyping (JBool False) w))
                   (get_prop data ''response'')
               else if t = JStr ''error'' then
                 map_sum id (\<lambda>v. setTyping (JBool False) (showError v w))
                   (get_prop data ''error'')
               else Inr w))"

definition ws_onerror :: "world \<Rightarrow> world" where
  "ws_onerror w = updateConnectionStatus False w"

definition reconnect_delay :: nat where
  "reconnect_delay = 5000"

definition ws_onclose :: "world \<Rightarrow> world" where
  "ws_onclose w =
     (let w1 = updateConnectionStatus False w
      in if truthy (field (settings w1) ''useWebSocket'')
         then w1\<lparr>timers := timers w1 @ [(reconnect_delay, Reconnect)]\<rparr>
         else w1)"

section \<open>Settings\<close>

definition saveSettings :: "world \<Rightarrow> world" where
  "saveSettings w =
     w\<lparr>localStorage :=
         AList.update ''chatbot-settings'' (JSON_stringify (JObj (settings w))) (localStorage w)\<rparr>"

definition loadSettings :: "world \<Rightarrow> js_error + world" where
  "loadSettings w =
     (case map_of (localStorage w) ''chatbot-settings'' of
        None \<Rightarrow> Inr w
      | Some saved \<Rightarrow>
          if \<not> nonempty saved then Inr w
          else (case JSON_parse saved of
                  Inl e \<Rightarrow> Inl e
                | Inr v \<Rightarrow> Inr (w\<lparr>settings := spread (settings w) (own_props v)\<rparr>)))"

text \<open>
  The three settings controls, with the value the control holds already read
  (\<^verbatim>\<open>parseFloat\<close>, \<^verbatim>\<open>parseInt\<close>, \<^verbatim>\<open>checked\<close>).
\<close>

definition temperature_input :: "real \<Rightarrow> world \<Rightarrow> world" where
  "temperature_input x w =
     saveSettings (w\<lparr>settings := AList.update ''temperature'' (JNum x) (settings w)\<rparr>)"

definition maxLength_input :: "int \<Rightarrow> world \<Rightarrow> world" where
  "maxLength_input n w =
     saveSettings (w\<lparr>settings := AList.update ''maxLength'' (JNum (of_int n)) (settings w)\<rparr>)"

definition useWebSocket_change :: "bool \<Rightarrow> world \<Rightarrow> world" where
  "useWebSocket_change checked w =
     (let w1 = saveSettings (w\<lparr>settings := AList.update ''useWebSocket'' (JBool checked) (settings w)\<rparr>)
      in if checked then connectWebSocket w1 else disconnectWebSocket w1)"

section \<open>Reset, health check and start\<close>

text \<open>
  \<^verbatim>\<open>resetConversation\<close>, with the answer to \<^verbatim>\<open>confirm\<close>; like the fallback send
  it is split at its \<^verbatim>\<open>await fetch\<close>.
\<close>

definition resetConversation :: "bool \<Rightarrow> world \<Rightarrow> world" where
  "resetConversation confirmed w =
     (if \<not> confirmed then w
      else w\<lparr>requests := requests w @
                [\<lparr>http_method = ''POST'', url = apiBaseUrl @ ''/api/reset'', headers = [], body = None\<rparr>],
              awaiting := awaiting w @ [ResetReply]\<rparr>)"

definition resetConversation_resume :: "fetch_result \<Rightarrow> world \<Rightarrow> world" where
  "resetConversation_resume r w =
     (case r of
        Rejected \<Rightarrow> showError (JStr ''Failed to reset conversation'') w
      | Response status b \<Rightarrow>
          if ok status
          then showSuccess ''Conversation reset successfully!''
                 (w\<lparr>messages := [], chatContainer := [WelcomeSection True]\<rparr>)
          else w)"

definition checkApiHealth :: "world \<Rightarrow> world" where
  "checkApiHealth w =
     w\<lparr>requests := requests w @
         [\<lparr>http_method = ''GET'', url = apiBaseUrl @ ''/'', headers = [], body = None\<rparr>],
       awaiting := awaiting w @ [HealthReply]\<rparr>"

definition health_error :: jvalue where
  "health_error =
     JStr ''Failed to connect to the chatbot API. Make sure the backend server is running.''"

definition checkApiHealth_resume :: "fetch_result \<Rightarrow> world \<Rightarrow> world" where
  "checkApiHealth_resume r w =
     (case r of
        Rejected \<Rightarrow> showError health_error w
      | Response status b \<Rightarrow>
          (case JSON_parse b of Inl e \<Rightarrow> showError health_error w | Inr data \<Rightarrow> w))"

text \<open>
  \<^verbatim>\<open>init\<close>: the settings are loaded (a stored text that is not JSON raises, and the
  rest of \<^verbatim>\<open>init\<close> does not run), the socket is opened when the preference asks for
  it, and the health check is issued.
\<close>

definition init :: "world \<Rightarrow> js_error + world" where
  "init w =
     (case loadSettings w of
        Inl e \<Rightarrow> Inl e
      | Inr w1 \<Rightarrow>
          Inr (checkApiHealth
                 (if truthy (field (settings w1) ''useWebSocket'') then connectWebSocket w1 else w1)))"

text \<open>The page as the script finds it: \<^verbatim>\<open>state\<close> as declared, nothing done yet.\<close>

definition fresh :: "(string \<times> wire) list \<Rightarrow> node list \<Rightarrow> string \<Rightarrow> world" where
  "fresh storage nodes now =
     \<lparr>messages = [], isTyping = JBool False, websocket = None,
      settings = [(''temperature'', defaultTemperature), (''maxLength'', defaultMaxLength),
                  (''useWebSocket'', useWebSocket_default)],
      messageInput = [], chatContainer = nodes, connectionStatus = False,
      sockets = [], blocked = False, frames = [], requests = [], awaiting = [], timers = [],
      localStorage = storage, clock = now, next_el = 0\<rparr>"

section \<open>The event loop\<close>

text \<open>
  One event is one run of a handler to completion. An event that the platform cannot
  deliver in the current state (a timer or a request that is not pending, an
  \<^verbatim>\<open>open\<close> on a socket that is not connecting, a frame on a socket that is not
  open, a \<^verbatim>\<open>close\<close> on a closed socket) changes nothing. An exception that leaves a
  handler is reported by the platform and the state stays as the handler left it.
\<close>

datatype event =
    Start
  | Tick string
  | Input string
  | Send
  | TemperatureInput real
  | MaxLengthInput int
  | UseWebSocketChange bool
  | Reset bool
  | Settled nat fetch_result
  | Timeout nat
  | WsOpen nat
  | WsMessage nat wire
  | WsError nat
  | WsClose nat

definition without :: "nat \<Rightarrow> 'a list \<Rightarrow> 'a list" where
  "without i xs = take i xs @ drop (Suc i) xs"

definition settle :: "nat \<Rightarrow> fetch_result \<Rightarrow> world \<Rightarrow> world" where
  "settle i r w =
     (if i < length (awaiting w) then
        (let w1 = w\<lparr>awaiting := without i (awaiting w)\<rparr>
         in case awaiting w ! i of
              ChatReply \<Rightarrow> sendViaRestAPI_resume r w1
            | ResetReply \<Rightarrow> resetConversation_resume r w1
            | HealthReply \<Rightarrow> checkApiHealth_resume r w1)
      else w)"

definition timeout :: "nat \<Rightarrow> world \<Rightarrow> world" where
  "timeout i w =
     (if i < length (timers w) then
        (let w1 = w\<lparr>timers := without i (timers w)\<rparr>
         in case snd (timers w ! i) of
              Reconnect \<Rightarrow> connectWebSocket w1
            | RemoveEl n \<Rightarrow> w1\<lparr>chatContainer := filter (\<lambda>x. \<not> is_el n x) (chatContainer w1)\<rparr>)
      else w)"

fun step :: "event \<Rightarrow> world \<Rightarrow> world" where
  "step Start w = (case init w of Inl e \<Rightarrow> w | Inr w' \<Rightarrow> w')"
| "step (Tick now) w = w\<lparr>clock := now\<rparr>"
| "step (Input s) w = w\<lparr>messageInput := s\<rparr>"
| "step Send w = sendMessage w"
| "step (TemperatureInput x) w = temperature_input x w"
| "step (MaxLengthInput n) w = maxLength_input n w"
| "step (UseWebSocketChange b) w = useWebSocket_change b w"
| "step (Reset confirmed) w = resetConversation confirmed w"
| "step (Settled i r) w = settle i r w"
| "step (Timeout i) w = timeout i w"
| "step (WsOpen h) w =
     (if ready w h = Some CONNECTING then ws_onopen (w\<lparr>sockets := (sockets w)[h := OPEN]\<rparr>) else w)"
| "step (WsMessage h d) w =
     (if ready w h = Some OPEN
      then (case ws_onmessage d w of Inl e \<Rightarrow> w | Inr w' \<Rightarrow> w')
      else w)"
| "step (WsError h) w = (if ready w h = None then w else ws_onerror w)"
| "step (WsClose h) w =
     (if ready w h = None \<or> ready w h = Some CLOSED then w
      else ws_onclose (w\<lparr>sockets := (sockets w)[h := CLOSED]\<rparr>))"

definition run :: "event list \<Rightarrow> world \<Rightarrow> world" where
  "run es w = fold step es w"

section \<open>States used in the statements\<close>

text \<open>
  \<open>prepared w\<close> is the state when \<^verbatim>\<open>sendMessage\<close> reaches its routing test: the user
  message is appended, the input is cleared and the welcome section is hidden.
\<close>

definition prepared :: "world \<Rightarrow> world" where
  "prepared w =
     (addMessage ''user'' (JStr (trim (messageInput w))) w)
       \<lparr>messageInput := [],
        chatContainer := hide_welcome (chatContainer (addMessage ''user'' (JStr (trim (messageInput w))) w))\<rparr>"

text \<open>Two pages to run on: just loaded (socket still connecting), and with the socket open.\<close>

definition page_connecting :: world where
  "page_connecting = run [Start, Input ''hi''] (fresh [] [WelcomeSection True] ''09:00'')"

definition page_open :: world where
  "page_open = run [Start, WsOpen 0, Input ''hi''] (fresh [] [WelcomeSection True] ''09:00'')"

text \<open>The page after the user has switched the preference off: request only.\<close>

definition page_request_only :: world where
  "page_request_only =
     run [Start, WsOpen 0, UseWebSocketChange False, Input ''hi'']
       (fresh [] [WelcomeSection True] ''09:00'')"

text \<open>
  The page after the socket has closed with the preference set (a retry is pending) and
  the user has then switched the preference off, which calls \<^verbatim>\<open>disconnectWebSocket\<close>.
\<close>

definition page_switched_off :: world where
  "page_switched_off =
     run [Start, WsOpen 0, WsClose 0, UseWebSocketChange False]
       (fresh [] [WelcomeSection True] ''09:00'')"

section \<open>Notions of the specification\<close>

text \<open>
  A valid Settings value as the specification describes it: the three keys of the
  settings object, a temperature in \<open>[0, 2]\<close>, a positive integer maximal length and
  a boolean for the transport preference (\<^verbatim>\<open>useWebSocket\<close>: persistent or request
  only).
\<close>

fun valid_temperature :: "jvalue \<Rightarrow> bool" where
  "valid_temperature (JNum t) = (0 \<le> t \<and> t \<le> 2)"
| "valid_temperature v = False"

fun valid_maxLength :: "jvalue \<Rightarrow> bool" where
  "valid_maxLength (JNum n) = (0 < n \<and> n \<in> \<int>)"
| "valid_maxLength v = False"

fun valid_preference :: "jvalue \<Rightarrow> bool" where
  "valid_preference (JBool p) = True"
| "valid_preference v = False"

definition valid_settings :: "(string \<times> jvalue) list \<Rightarrow> bool" where
  "valid_settings s =
     (map fst s = [''temperature'', ''maxLength'', ''useWebSocket''] \<and>
      valid_temperature (field s ''temperature'') \<and>
      valid_maxLength (field s ''maxLength'') \<and>
      valid_preference (field s ''useWebSocket''))"

text \<open>
  The TransportEvent of the specification and the decoding it describes for an inbound
  frame: a JSON object discriminated by \<^verbatim>\<open>type\<close>, carrying a boolean
  \<^verbatim>\<open>isTyping\<close>, a text \<^verbatim>\<open>response\<close> or a text \<^verbatim>\<open>error\<close>. The source has no
  such function: \<open>ws_onmessage\<close> above is what it does with a frame.
\<close>

datatype transport_event = Typing bool | Message string | Error string

fun spec_typing :: "jvalue \<Rightarrow> transport_event option" where
  "spec_typing (JBool b) = Some (Typing b)"
| "spec_typing v = None"

fun spec_message :: "jvalue \<Rightarrow> transport_event option" where
  "spec_message (JStr s) = Some (Message s)"
| "spec_message v = None"

fun spec_error :: "jvalue \<Rightarrow> transport_event option" where
  "spec_error (JStr s) = Some (Error s)"
| "spec_error v = None"

fun spec_decode :: "wire \<Rightarrow> transport_event option" where
  "spec_decode (Json (JObj kvs)) =
     (if field kvs ''type'' = JStr ''typing'' then spec_typing (field kvs ''isTyping'')
      else if field kvs ''type'' = JStr ''message'' then spec_message (field kvs ''response'')
      else if field kvs ''type'' = JStr ''error'' then spec_error (field kvs ''error'')
      else None)"
| "spec_decode d = None"

text \<open>The value of \<^verbatim>\<open>data.type\<close> that the handler branches on, when it gets that far.\<close>

definition frame_tag :: "wire \<Rightarrow> jvalue option" where
  "frame_tag d =
     (case JSON_parse d of
        Inl e \<Rightarrow> None
      | Inr data \<Rightarrow> (case get_prop data ''type'' of Inl e \<Rightarrow> None | Inr t \<Rightarrow> Some t))"

text \<open>The value of \<^verbatim>\<open>data.k\<close> for the parsed frame, \<^verbatim>\<open>undefined\<close> when there is none.\<close>

definition frame_prop :: "wire \<Rightarrow> string \<Rightarrow> jvalue" where
  "frame_prop d k =
     (case JSON_parse d of
        Inl e \<Rightarrow> JUndefined
      | Inr data \<Rightarrow> (case get_prop data k of Inl e \<Rightarrow> JUndefined | Inr v \<Rightarrow> v))"

definition known_tag :: "wire \<Rightarrow> bool" where
  "known_tag d =
     (frame_tag d = Some (JStr ''typing'') \<or> frame_tag d = Some (JStr ''message'') \<or>
      frame_tag d = Some (JStr ''error''))"

fun is_error_el :: "node \<Rightarrow> bool" where
  "is_error_el (ErrorEl k msg) = True"
| "is_error_el x = False"

text \<open>The messages on display: the message elements of the chat container, in order.\<close>

fun shown :: "node list \<Rightarrow> message list" where
  "shown [] = []"
| "shown (MessageEl m # xs) = m # shown xs"
| "shown (x # xs) = shown xs"

text \<open>
  The event is the success of a confirmed reset: the request of \<^verbatim>\<open>resetConversation\<close>
  settles with an ok status.
\<close>

definition reset_done :: "event \<Rightarrow> world \<Rightarrow> bool" where
  "reset_done e w =
     (case e of
        Settled i (Response status b) \<Rightarrow>
          i < length (awaiting w) \<and> awaiting w ! i = ResetReply \<and> ok status
      | _ \<Rightarrow> False)"

text \<open>
  From \<open>w\<close> to \<open>w'\<close> the log has only grown at its end, and if the display showed
  the log before, it shows it after.
\<close>

definition log_kept :: "world \<Rightarrow> world \<Rightarrow> bool" where
  "log_kept w w' \<longleftrightarrow>
     prefix (messages w) (messages w') \<and>
     (shown (chatContainer w) = messages w \<longrightarrow> shown (chatContainer w') = messages w')"

section \<open>Properties\<close>

lemmas handler_defs =
  sendMessage_def sendViaWebSocket_def sendViaRestAPI_def sendViaRestAPI_resume_def
  websocket_send_def ws_send_def chat_frame_def chat_request_def chat_reply_def
  addMessage_def setTyping_def showError_def showSuccess_def updateConnectionStatus_def
  connectWebSocket_def disconnectWebSocket_def ws_close_def ws_onopen_def ws_onmessage_def
  ws_onerror_def ws_onclose_def saveSettings_def loadSettings_def temperature_input_def
  maxLength_input_def useWebSocket_change_def resetConversation_def
  resetConversation_resume_def checkApiHealth_def checkApiHealth_resume_def init_def
  settle_def timeout_def without_def ready_def websocket_open_def field_def
  JSON_stringify_def spread_def trim_def is_space_def ok_def reconnect_delay_def
  fresh_def run_def apiBaseUrl_def wsUrl_def defaultTemperature_def defaultMaxLength_def
  useWebSocket_default_def health_error_def Let_def

subsection \<open>Blank input\<close>

lemma trim_blank: "list_all is_space s \<Longrightarrow> trim s = []"
  by (auto simp: trim_def list_all_iff dest: set_dropWhileD)

text \<open>
  C10. When the input is empty or holds white space only (the no-break space included),
  \<^verbatim>\<open>sendMessage\<close> returns at its guard: no message is appended, nothing is sent on
  either transport and the busy flag keeps its value; the whole state, the input box
  included, is as before.
\<close>

theorem blank_input_is_noop:
  "list_all is_space (messageInput w) \<Longrightarrow> sendMessage w = w"
  by (simp add: sendMessage_def trim_blank)

theorem blank_input_is_noop_witness:
  "list_all is_space [CHR 0x20, CHR 0x09, CHR 0xA0] \<and>
   sendMessage (page_open\<lparr>messageInput := [CHR 0x20, CHR 0x09, CHR 0xA0]\<rparr>) =
     page_open\<lparr>messageInput := [CHR 0x20, CHR 0x09, CHR 0xA0]\<rparr> \<and>
   list_all is_space [] \<and> sendMessage (page_open\<lparr>messageInput := []\<rparr>) = page_open\<lparr>messageInput := []\<rparr>"
  using blank_input_is_noop [of "page_open\<lparr>messageInput := [CHR 0x20, CHR 0x09, CHR 0xA0]\<rparr>"]
    blank_input_is_noop [of "page_open\<lparr>messageInput := []\<rparr>"]
  by (simp add: is_space_def)

subsection \<open>Routing of one message\<close>

lemma requests_sendViaRestAPI:
  "requests (sendViaRestAPI msg w) = requests w @ [chat_request msg w]"
  by (simp add: sendViaRestAPI_def setTyping_def chat_request_def Let_def)

lemma frames_sendViaRestAPI: "frames (sendViaRestAPI msg w) = frames w"
  by (simp add: sendViaRestAPI_def setTyping_def Let_def)

lemma isTyping_sendViaRestAPI: "isTyping (sendViaRestAPI msg w) = JBool True"
  by (simp add: sendViaRestAPI_def setTyping_def Let_def)

lemma websocket_send_Inr:
  "websocket_send msg w = Inr w' \<Longrightarrow>
     requests w' = requests w \<and> isTyping w' = isTyping w \<and> messages w' = messages w \<and>
     (websocket_open w \<longrightarrow> (\<exists>h. websocket w = Some h \<and> frames w' = frames w @ [(h, chat_frame msg w)]))"
  by (auto simp: websocket_send_def ws_send_def websocket_open_def
      split: option.splits readyState.splits)

lemma websocket_send_open:
  "websocket_open w \<Longrightarrow> \<exists>w'. websocket_send msg w = Inr w'"
  by (auto simp: websocket_send_def ws_send_def websocket_open_def split: option.splits)

lemma prepared_simps:
  "settings (prepared w) = settings w" "websocket (prepared w) = websocket w"
  "sockets (prepared w) = sockets w" "frames (prepared w) = frames w"
  "requests (prepared w) = requests w" "isTyping (prepared w) = isTyping w"
  "websocket_open (prepared w) = websocket_open w"
  "chat_frame msg (prepared w) = chat_frame msg w"
  "chat_request msg (prepared w) = chat_request msg w"
  "messages (prepared w) =
     messages w @ [\<lparr>type = ''user'', content = JStr (trim (messageInput w)), timestamp = clock w\<rparr>]"
  by (simp_all add: prepared_def addMessage_def websocket_open_def ready_def chat_frame_def
      chat_request_def Let_def cong: option.case_cong)

lemma sendMessage_accepted:
  "trim (messageInput w) \<noteq> [] \<Longrightarrow> \<not> truthy (isTyping w) \<Longrightarrow>
   sendMessage w =
     (if truthy (field (settings w) ''useWebSocket'') \<and> websocket_open w
      then sendViaWebSocket (trim (messageInput w)) (prepared w)
      else sendViaRestAPI (trim (messageInput w)) (prepared w))"
proof -
  assume "trim (messageInput w) \<noteq> []" and "\<not> truthy (isTyping w)"
  then have "sendMessage w =
     (if truthy (field (settings (prepared w)) ''useWebSocket'') \<and> websocket_open (prepared w)
      then sendViaWebSocket (trim (messageInput w)) (prepared w)
      else sendViaRestAPI (trim (messageInput w)) (prepared w))"
    by (simp add: sendMessage_def prepared_def Let_def)
  then show ?thesis
    by (simp only: prepared_simps)
qed


lemma chat_request_eq:
  "chat_request msg w =
     \<lparr>http_method = ''POST'', url = ''http://localhost:8000/api/chat'',
      headers = [(''Content-Type'', ''application/json'')],
      body = Some (JSON_stringify (JObj
        [(''message'', JStr msg),
         (''temperature'', field (settings w) ''temperature''),
         (''max_length'', field (settings w) ''maxLength'')]))\<rparr>"
  by (simp add: chat_request_def apiBaseUrl_def)

lemma stringify_message_first:
  "JSON_stringify (JObj ((''message'', JStr msg) # others)) =
     Json (JObj ((''message'', JStr msg) #
       map (\<lambda>p. (fst p, jsonify (snd p))) (filter (\<lambda>p. snd p \<noteq> JUndefined) others)))"
  by (simp add: JSON_stringify_def)

text \<open>
  C1. A send that passes the guard (non-empty trimmed text, not busy) is routed once. With
  the preference set and the socket open, the frame \<^verbatim>\<open>{message, temperature, maxLength}\<close>
  goes to that socket and no request is issued. In every other case (preference off, or
  socket not open) exactly one request is issued, \<^verbatim>\<open>POST /api/chat\<close> with the body
  \<^verbatim>\<open>{message, temperature, max_length}\<close>, and no frame is sent. When the send on the
  socket raises, \<^verbatim>\<open>sendViaWebSocket\<close> issues exactly that one request in its place.
  The JSON text of such an object starts with the message as given, so each accepted
  message leaves, with its text, on exactly one transport.
\<close>

theorem send_routes_once:
  assumes "trim (messageInput w) \<noteq> []" and "\<not> truthy (isTyping w)"
  shows "(truthy (field (settings w) ''useWebSocket'') \<and> websocket_open w \<longrightarrow>
            (\<exists>h. websocket w = Some h \<and>
               frames (sendMessage w) = frames w @
                 [(h, JSON_stringify (JObj
                        [(''message'', JStr (trim (messageInput w))),
                         (''temperature'', field (settings w) ''temperature''),
                         (''maxLength'', field (settings w) ''maxLength'')]))]) \<and>
            requests (sendMessage w) = requests w) \<and>
         (\<not> (truthy (field (settings w) ''useWebSocket'') \<and> websocket_open w) \<longrightarrow>
            requests (sendMessage w) = requests w @
              [\<lparr>http_method = ''POST'', url = ''http://localhost:8000/api/chat'',
                headers = [(''Content-Type'', ''application/json'')],
                body = Some (JSON_stringify (JObj
                  [(''message'', JStr (trim (messageInput w))),
                   (''temperature'', field (settings w) ''temperature''),
                   (''max_length'', field (settings w) ''maxLength'')]))\<rparr>] \<and>
            frames (sendMessage w) = frames w) \<and>
         (websocket_send msg w = Inl e \<longrightarrow>
            requests (sendViaWebSocket msg w) = requests w @
              [\<lparr>http_method = ''POST'', url = ''http://localhost:8000/api/chat'',
                headers = [(''Content-Type'', ''application/json'')],
                body = Some (JSON_stringify (JObj
                  [(''message'', JStr msg),
                   (''temperature'', field (settings w) ''temperature''),
                   (''max_length'', field (settings w) ''maxLength'')]))\<rparr>] \<and>
            frames (sendViaWebSocket msg w) = frames w) \<and>
         (\<exists>rest. JSON_stringify (JObj ((''message'', JStr msg) # others)) =
            Json (JObj ((''message'', JStr msg) # rest)))"
proof (intro conjI impI)
  assume route: "truthy (field (settings w) ''useWebSocket'') \<and> websocket_open w"
  obtain w' where w': "websocket_send (trim (messageInput w)) (prepared w) = Inr w'"
    using websocket_send_open [of "prepared w"] route by (auto simp: prepared_simps)
  have eq: "sendMessage w = w'"
    using assms route w' by (simp add: sendMessage_accepted sendViaWebSocket_def)
  from websocket_send_Inr [OF w'] route
  show "\<exists>h. websocket w = Some h \<and>
     frames (sendMessage w) = frames w @
       [(h, JSON_stringify (JObj
              [(''message'', JStr (trim (messageInput w))),
               (''temperature'', field (settings w) ''temperature''),
               (''maxLength'', field (settings w) ''maxLength'')]))]"
    by (simp add: eq prepared_simps) (simp add: chat_frame_def)
  from websocket_send_Inr [OF w'] show "requests (sendMessage w) = requests w"
    by (simp add: eq prepared_simps)
next
  assume "\<not> (truthy (field (settings w) ''useWebSocket'') \<and> websocket_open w)"
  then have eq: "sendMessage w = sendViaRestAPI (trim (messageInput w)) (prepared w)"
    using assms by (auto simp: sendMessage_accepted)
  show "requests (sendMessage w) = requests w @
      [\<lparr>http_method = ''POST'', url = ''http://localhost:8000/api/chat'',
        headers = [(''Content-Type'', ''application/json'')],
        body = Some (JSON_stringify (JObj
          [(''message'', JStr (trim (messageInput w))),
           (''temperature'', field (settings w) ''temperature''),
           (''max_length'', field (settings w) ''maxLength'')]))\<rparr>]"
    by (simp add: eq requests_sendViaRestAPI prepared_simps chat_request_eq)
  show "frames (sendMessage w) = frames w"
    by (simp add: eq frames_sendViaRestAPI prepared_simps)
next
  assume "websocket_send msg w = Inl e"
  then have eq: "sendViaWebSocket msg w =
      sendViaRestAPI msg (showError (JStr ''Failed to send message via WebSocket. Trying REST API...'') w)"
    by (simp add: sendViaWebSocket_def)
  show "requests (sendViaWebSocket msg w) = requests w @
      [\<lparr>http_method = ''POST'', url = ''http://localhost:8000/api/chat'',
        headers = [(''Content-Type'', ''application/json'')],
        body = Some (JSON_stringify (JObj
          [(''message'', JStr msg),
           (''temperature'', field (settings w) ''temperature''),
           (''max_length'', field (settings w) ''maxLength'')]))\<rparr>]"
    by (simp add: eq requests_sendViaRestAPI chat_request_eq) (simp add: showError_def)
  show "frames (sendViaWebSocket msg w) = frames w"
    by (simp add: eq frames_sendViaRestAPI showError_def)
next
  show "\<exists>rest. JSON_stringify (JObj ((''message'', JStr msg) # others)) =
            Json (JObj ((''message'', JStr msg) # rest))"
    by (simp add: stringify_message_first)
qed

lemma page_connecting_eq:
  "page_connecting =
    \<lparr>messages = [], isTyping = JBool False, websocket = Some 0,
     settings = [(''temperature'', JNum 0.7), (''maxLength'', JNum 1000), (''useWebSocket'', JBool True)],
     messageInput = ''hi'', chatContainer = [WelcomeSection True], connectionStatus = False,
     sockets = [CONNECTING], blocked = False, frames = [],
     requests = [\<lparr>http_method = ''GET'', url = ''http://localhost:8000/'', headers = [], body = None\<rparr>],
     awaiting = [HealthReply], timers = [], localStorage = [], clock = ''09:00'', next_el = 0\<rparr>"
  by (simp add: page_connecting_def handler_defs)

lemma page_open_eq:
  "page_open =
    \<lparr>messages = [], isTyping = JBool False, websocket = Some 0,
     settings = [(''temperature'', JNum 0.7), (''maxLength'', JNum 1000), (''useWebSocket'', JBool True)],
     messageInput = ''hi'', chatContainer = [WelcomeSection True], connectionStatus = True,
     sockets = [OPEN], blocked = False, frames = [],
     requests = [\<lparr>http_method = ''GET'', url = ''http://localhost:8000/'', headers = [], body = None\<rparr>],
     awaiting = [HealthReply], timers = [], localStorage = [], clock = ''09:00'', next_el = 0\<rparr>"
  by (simp add: page_open_def handler_defs)

lemma page_request_only_eq:
  "page_request_only =
    \<lparr>messages = [], isTyping = JBool False, websocket = None,
     settings = [(''temperature'', JNum 0.7), (''maxLength'', JNum 1000), (''useWebSocket'', JBool False)],
     messageInput = ''hi'', chatContainer = [WelcomeSection True], connectionStatus = False,
     sockets = [CLOSING], blocked = False, frames = [],
     requests = [\<lparr>http_method = ''GET'', url = ''http://localhost:8000/'', headers = [], body = None\<rparr>],
     awaiting = [HealthReply], timers = [],
     localStorage = [(''chatbot-settings'', Json (JObj [(''temperature'', JNum 0.7),
        (''maxLength'', JNum 1000), (''useWebSocket'', JBool False)]))],
     clock = ''09:00'', next_el = 0\<rparr>"
  by (simp add: page_request_only_def handler_defs)

theorem send_routes_once_witness:
  "frames (sendMessage page_open) =
     [(0, Json (JObj [(''message'', JStr ''hi''), (''temperature'', JNum 0.7), (''maxLength'', JNum 1000)]))] \<and>
   requests (sendMessage page_open) = requests page_open \<and>
   requests (sendMessage page_connecting) =
     requests page_connecting @
       [\<lparr>http_method = ''POST'', url = ''http://localhost:8000/api/chat'',
         headers = [(''Content-Type'', ''application/json'')],
         body = Some (Json (JObj [(''message'', JStr ''hi''), (''temperature'', JNum 0.7),
                                  (''max_length'', JNum 1000)]))\<rparr>] \<and>
   frames (sendMessage page_connecting) = [] \<and>
   field (settings page_request_only) ''useWebSocket'' = JBool False \<and>
   requests (sendMessage page_request_only) =
     requests page_request_only @
       [\<lparr>http_method = ''POST'', url = ''http://localhost:8000/api/chat'',
         headers = [(''Content-Type'', ''application/json'')],
         body = Some (Json (JObj [(''message'', JStr ''hi''), (''temperature'', JNum 0.7),
                                  (''max_length'', JNum 1000)]))\<rparr>] \<and>
   frames (sendMessage page_request_only) = [] \<and>
   websocket_send ''hi'' page_connecting = Inl InvalidStateError \<and>
   requests (sendViaWebSocket ''hi'' page_connecting) =
     requests page_connecting @
       [\<lparr>http_method = ''POST'', url = ''http://localhost:8000/api/chat'',
         headers = [(''Content-Type'', ''application/json'')],
         body = Some (Json (JObj [(''message'', JStr ''hi''), (''temperature'', JNum 0.7),
                                  (''max_length'', JNum 1000)]))\<rparr>] \<and>
   frames (sendViaWebSocket ''hi'' page_connecting) = []"
  using send_routes_once [where w = page_open and msg = "''hi''" and e = InvalidStateError and others = "[]"]
    send_routes_once [where w = page_connecting and msg = "''hi''" and e = InvalidStateError and others = "[]"]
    send_routes_once [where w = page_request_only and msg = "''hi''" and e = InvalidStateError and others = "[]"]
  by (simp add: page_open_eq page_connecting_eq page_request_only_eq trim_def is_space_def field_def
      websocket_open_def ready_def JSON_stringify_def websocket_send_def ws_send_def chat_frame_def)

subsection \<open>What the message handler does, by tag\<close>

lemma get_prop_total: "get_prop data k = Inr t \<Longrightarrow> \<exists>v. get_prop data k' = Inr v"
  by (cases data) simp_all

lemma onmessage_tagged:
  assumes "frame_tag d = Some t"
  shows "ws_onmessage d w =
     Inr (if t = JStr ''typing'' then setTyping (frame_prop d ''isTyping'') w
          else if t = JStr ''message''
               then addMessage ''bot'' (frame_prop d ''response'') (setTyping (JBool False) w)
          else if t = JStr ''error''
               then setTyping (JBool False) (showError (frame_prop d ''error'') w)
          else w)"
proof -
  from assms obtain data where p: "JSON_parse d = Inr data" and t: "get_prop data ''type'' = Inr t"
    by (auto simp: frame_tag_def split: sum.splits)
  from t obtain a b c where
    "get_prop data ''isTyping'' = Inr a" "get_prop data ''response'' = Inr b"
    "get_prop data ''error'' = Inr c"
    using get_prop_total [OF t] by metis
  with p t show ?thesis
    by (simp add: ws_onmessage_def frame_prop_def)
qed

lemma onmessage_untagged: "frame_tag d = None \<Longrightarrow> \<exists>e. ws_onmessage d w = Inl e"
  by (auto simp: frame_tag_def ws_onmessage_def split: sum.splits)

subsection \<open>The busy flag\<close>

lemma ready_Some: "ready w h = Some s \<longleftrightarrow> h < length (sockets w) \<and> sockets w ! h = s"
  by (auto simp: ready_def)

text \<open>
  C4, as stated, fails on the open socket: \<^verbatim>\<open>sendViaWebSocket\<close> does not set the busy
  flag, so a second send issued before any reply or typing event has arrived is accepted.
  Both frames are sent and both user messages are appended.
\<close>

theorem second_send_on_open_socket:
  "frames (run [Start, WsOpen 0, Input ''a'', Send, Input ''b'', Send]
             (fresh [] [WelcomeSection True] ''09:00'')) =
     [(0, Json (JObj [(''message'', JStr ''a''), (''temperature'', JNum 0.7), (''maxLength'', JNum 1000)])),
      (0, Json (JObj [(''message'', JStr ''b''), (''temperature'', JNum 0.7), (''maxLength'', JNum 1000)]))] \<and>
   map content (messages (run [Start, WsOpen 0, Input ''a'', Send, Input ''b'', Send]
             (fresh [] [WelcomeSection True] ''09:00''))) = [JStr ''a'', JStr ''b'']"
  by (simp add: handler_defs)

text \<open>
  On the fallback path the flag does not bound the exchanges in flight either: an inbound
  frame clears it while a request is pending, and the next send, with the socket closed
  again, issues a second request.
\<close>

lemma two_fallbacks_pending:
  "awaiting (run [Start, Input ''a'', Send, WsOpen 0,
                  WsMessage 0 (Json (JObj [(''type'', JStr ''typing''), (''isTyping'', JBool False)])),
                  WsClose 0, Input ''b'', Send]
               (fresh [] [WelcomeSection True] ''09:00'')) = [HealthReply, ChatReply, ChatReply]"
  by (simp add: handler_defs)

lemma isTyping_resume: "isTyping (sendViaRestAPI_resume r w) = JBool False"
  by (simp add: sendViaRestAPI_resume_def setTyping_def)

lemma isTyping_onmessage:
  assumes "ws_onmessage d w = Inr w'"
  shows "isTyping w' =
     (if frame_tag d = Some (JStr ''typing'') then frame_prop d ''isTyping''
      else if frame_tag d = Some (JStr ''message'') \<or> frame_tag d = Some (JStr ''error'')
           then JBool False
      else isTyping w)"
proof (cases "frame_tag d")
  case None
  then show ?thesis
    using assms onmessage_untagged [of d w] by auto
next
  case (Some t)
  with assms onmessage_tagged [OF Some, of w] show ?thesis
    by (auto simp: setTyping_def addMessage_def showError_def Let_def)
qed

text \<open>
  C4, amended. A send issued while the busy flag is set is rejected: the state is
  unchanged, so nothing is sent on either transport, nothing is appended and nothing is
  queued. The fallback path sets the flag when it issues its request, so a send that
  directly follows is rejected, and clears it when its request settles. A send on the
  socket leaves the flag as it is. An inbound typing frame sets the flag to the frame's
  \<^verbatim>\<open>isTyping\<close> value, an inbound message or error frame clears it, and any other
  frame leaves it.
\<close>

theorem busy_send_rejected:
  "(truthy (isTyping w) \<longrightarrow> sendMessage w = w) \<and>
   isTyping (sendViaRestAPI msg w) = JBool True \<and>
   sendMessage (sendViaRestAPI msg w) = sendViaRestAPI msg w \<and>
   isTyping (sendViaRestAPI_resume r w) = JBool False \<and>
   (websocket_send msg w = Inr w' \<longrightarrow> isTyping w' = isTyping w) \<and>
   (ws_onmessage d w = Inr w'' \<longrightarrow>
      isTyping w'' =
        (if frame_tag d = Some (JStr ''typing'') then frame_prop d ''isTyping''
         else if frame_tag d = Some (JStr ''message'') \<or> frame_tag d = Some (JStr ''error'')
              then JBool False
         else isTyping w))"
  using websocket_send_Inr [of msg w w'] isTyping_onmessage [of d w w'']
  by (simp add: sendMessage_def isTyping_sendViaRestAPI isTyping_resume)

theorem busy_send_rejected_witness:
  "truthy (isTyping (sendMessage page_connecting)) \<and>
   sendMessage (sendMessage page_connecting\<lparr>messageInput := ''again''\<rparr>) =
     sendMessage page_connecting\<lparr>messageInput := ''again''\<rparr> \<and>
   websocket_send ''hi'' page_open =
     Inr (page_open\<lparr>frames := [(0, chat_frame ''hi'' page_open)]\<rparr>) \<and>
   isTyping (page_open\<lparr>frames := [(0, chat_frame ''hi'' page_open)]\<rparr>) = isTyping page_open \<and>
   ws_onmessage (Json (JObj [(''type'', JStr ''typing''), (''isTyping'', JBool True)])) page_open =
     Inr (page_open\<lparr>isTyping := JBool True\<rparr>) \<and>
   sendMessage (page_open\<lparr>isTyping := JBool True\<rparr>) = page_open\<lparr>isTyping := JBool True\<rparr>"
  using busy_send_rejected [where w = "sendMessage page_connecting\<lparr>messageInput := ''again''\<rparr>"
      and msg = "''hi''"]
    busy_send_rejected [where w = page_open and msg = "''hi''"
      and w' = "page_open\<lparr>frames := [(0, chat_frame ''hi'' page_open)]\<rparr>"
      and d = "Json (JObj [(''type'', JStr ''typing''), (''isTyping'', JBool True)])"
      and w'' = "page_open\<lparr>isTyping := JBool True\<rparr>"]
    busy_send_rejected [where w = "page_open\<lparr>isTyping := JBool True\<rparr>"]
  by (simp add: page_connecting_eq page_open_eq handler_defs)

subsection \<open>The fallback round trip\<close>

text \<open>
  C8. With the preference set and the socket not open, an accepted send issues
  \<^verbatim>\<open>POST /api/chat\<close> with the body \<^verbatim>\<open>{message, temperature, max_length}\<close> and
  sets the busy flag. When the request settles with status 200 and the body
  \<^verbatim>\<open>{response: "ok"}\<close>, exactly one message of type bot with content ok is appended
  and the flag is cleared. When it settles with a status that is not ok, no message is
  appended, one error notice is shown and the flag is cleared.
\<close>

theorem fallback_round_trip:
  assumes "trim (messageInput w) \<noteq> []" and "\<not> truthy (isTyping w)"
    and "truthy (field (settings w) ''useWebSocket'')" and "\<not> websocket_open w"
  shows "requests (sendMessage w) = requests w @
           [\<lparr>http_method = ''POST'', url = ''http://localhost:8000/api/chat'',
             headers = [(''Content-Type'', ''application/json'')],
             body = Some (JSON_stringify (JObj
               [(''message'', JStr (trim (messageInput w))),
                (''temperature'', field (settings w) ''temperature''),
                (''max_length'', field (settings w) ''maxLength'')]))\<rparr>] \<and>
         awaiting (sendMessage w) = awaiting w @ [ChatReply] \<and>
         isTyping (sendMessage w) = JBool True \<and>
         sendViaRestAPI_resume (Response 200 (Json (JObj [(''response'', JStr ''ok'')]))) w' =
           w'\<lparr>messages := messages w' @ [\<lparr>type = ''bot'', content = JStr ''ok'', timestamp = clock w'\<rparr>],
               chatContainer := chatContainer w' @
                 [MessageEl \<lparr>type = ''bot'', content = JStr ''ok'', timestamp = clock w'\<rparr>],
               isTyping := JBool False\<rparr> \<and>
         (\<not> ok status \<longrightarrow>
            sendViaRestAPI_resume (Response status b) w' =
              w'\<lparr>chatContainer := chatContainer w' @
                    [ErrorEl (next_el w')
                       (JStr ''Failed to get response from the chatbot. Please try again.'')],
                  timers := timers w' @ [(5000, RemoveEl (next_el w'))],
                  next_el := Suc (next_el w'),
                  isTyping := JBool False\<rparr>)"
proof -
  have eq: "sendMessage w = sendViaRestAPI (trim (messageInput w)) (prepared w)"
    using assms by (simp add: sendMessage_accepted)
  have "requests (sendMessage w) = requests w @ [chat_request (trim (messageInput w)) w]"
    by (simp add: eq requests_sendViaRestAPI prepared_simps)
  moreover have "awaiting (sendMessage w) = awaiting w @ [ChatReply]"
    by (simp add: eq sendViaRestAPI_def setTyping_def prepared_def addMessage_def Let_def)
  moreover have "isTyping (sendMessage w) = JBool True"
    by (simp add: eq isTyping_sendViaRestAPI)
  moreover have "sendViaRestAPI_resume (Response 200 (Json (JObj [(''response'', JStr ''ok'')]))) w' =
           w'\<lparr>messages := messages w' @ [\<lparr>type = ''bot'', content = JStr ''ok'', timestamp = clock w'\<rparr>],
               chatContainer := chatContainer w' @
                 [MessageEl \<lparr>type = ''bot'', content = JStr ''ok'', timestamp = clock w'\<rparr>],
               isTyping := JBool False\<rparr>"
    by (simp add: sendViaRestAPI_resume_def chat_reply_def ok_def addMessage_def setTyping_def Let_def)
  moreover have "sendViaRestAPI_resume (Response status b) w' =
              w'\<lparr>chatContainer := chatContainer w' @
                    [ErrorEl (next_el w')
                       (JStr ''Failed to get response from the chatbot. Please try again.'')],
                  timers := timers w' @ [(5000, RemoveEl (next_el w'))],
                  next_el := Suc (next_el w'),
                  isTyping := JBool False\<rparr>" if "\<not> ok status"
    using that by (simp add: sendViaRestAPI_resume_def chat_reply_def showError_def setTyping_def)
  ultimately show ?thesis
    by (simp add: chat_request_def apiBaseUrl_def)
qed

theorem fallback_round_trip_witness:
  "requests (sendMessage page_connecting) =
     [\<lparr>http_method = ''GET'', url = ''http://localhost:8000/'', headers = [], body = None\<rparr>,
      \<lparr>http_method = ''POST'', url = ''http://localhost:8000/api/chat'',
       headers = [(''Content-Type'', ''application/json'')],
       body = Some (Json (JObj [(''message'', JStr ''hi''), (''temperature'', JNum 0.7),
                                (''max_length'', JNum 1000)]))\<rparr>] \<and>
   awaiting (sendMessage page_connecting) = [HealthReply, ChatReply] \<and>
   isTyping (sendMessage page_connecting) = JBool True \<and>
   map content (messages (step (Settled 1 (Response 200 (Json (JObj [(''response'', JStr ''ok'')]))))
                            (sendMessage page_connecting))) = [JStr ''hi'', JStr ''ok''] \<and>
   \<not> ok 500 \<and>
   map content (messages (step (Settled 1 (Response 500 (Plain ''Internal Server Error'')))
                            (sendMessage page_connecting))) = [JStr ''hi''] \<and>
   isTyping (step (Settled 1 (Response 500 (Plain ''Internal Server Error'')))
                            (sendMessage page_connecting)) = JBool False"
  using fallback_round_trip [where w = page_connecting and status = 500
      and b = "Plain ''Internal Server Error''"
      and w' = "(sendMessage page_connecting)\<lparr>awaiting := [HealthReply]\<rparr>"]
  by (simp add: page_connecting_eq handler_defs)

subsection \<open>The persistent scenario\<close>

text \<open>
  C9. With the socket open, the preference set and the settings
  \<^verbatim>\<open>{temperature: 0.7, maxLength: 1000}\<close>, sending hi hands the socket exactly the frame
  \<^verbatim>\<open>{message: "hi", temperature: 0.7, maxLength: 1000}\<close> and issues no request; the
  inbound frame \<^verbatim>\<open>{type: "message", response: "hello"}\<close> that follows appends the
  message of type bot (the assistant) with content hello as the next entry of the log.
\<close>

theorem persistent_scenario:
  assumes "messageInput w = ''hi''" and "\<not> truthy (isTyping w)"
    and "field (settings w) ''temperature'' = JNum 0.7"
    and "field (settings w) ''maxLength'' = JNum 1000"
    and "truthy (field (settings w) ''useWebSocket'')"
    and "websocket w = Some h" and "ready w h = Some OPEN"
  shows "frames (sendMessage w) = frames w @
           [(h, Json (JObj [(''message'', JStr ''hi''), (''temperature'', JNum 0.7),
                            (''maxLength'', JNum 1000)]))] \<and>
         requests (sendMessage w) = requests w \<and>
         messages (sendMessage w) =
           messages w @ [\<lparr>type = ''user'', content = JStr ''hi'', timestamp = clock w\<rparr>] \<and>
         messages (step (WsMessage h (Json (JObj [(''type'', JStr ''message''),
                                                  (''response'', JStr ''hello'')])))
                     (sendMessage w)) =
           messages (sendMessage w) @
             [\<lparr>type = ''bot'', content = JStr ''hello'', timestamp = clock w\<rparr>]"
proof -
  have t: "trim (messageInput w) = ''hi''"
    using assms(1) by (simp add: trim_def is_space_def)
  have op: "websocket_open w"
    using assms(6,7) by (simp add: websocket_open_def)
  have "ready (prepared w) h = ready w h"
    by (simp add: ready_def prepared_simps)
  then have rp: "ready (prepared w) h = Some OPEN"
    using assms(7) by simp
  have w': "websocket_send ''hi'' (prepared w) =
      Inr ((prepared w)\<lparr>frames := frames w @ [(h, chat_frame ''hi'' w)]\<rparr>)"
    by (simp add: websocket_send_def ws_send_def rp assms(6) prepared_simps)
  have eq: "sendMessage w = (prepared w)\<lparr>frames := frames w @ [(h, chat_frame ''hi'' w)]\<rparr>"
    using assms(2,5) op t w' by (simp add: sendMessage_accepted sendViaWebSocket_def)
  have fr: "chat_frame ''hi'' w =
      Json (JObj [(''message'', JStr ''hi''), (''temperature'', JNum 0.7), (''maxLength'', JNum 1000)])"
    using assms(3,4) by (simp add: chat_frame_def JSON_stringify_def)
  have "ready (sendMessage w) h = ready w h"
    by (simp add: eq ready_def prepared_simps)
  then have rd: "ready (sendMessage w) h = Some OPEN"
    using assms(7) by simp
  have ck: "clock (sendMessage w) = clock w"
    by (simp add: eq prepared_def addMessage_def Let_def)
  show ?thesis
    using rd ck
    by (simp add: ws_onmessage_def addMessage_def setTyping_def Let_def)
      (simp add: eq fr prepared_simps t)
qed

theorem persistent_scenario_witness:
  "frames (sendMessage page_open) =
     [(0, Json (JObj [(''message'', JStr ''hi''), (''temperature'', JNum 0.7),
                      (''maxLength'', JNum 1000)]))] \<and>
   messages (step (WsMessage 0 (Json (JObj [(''type'', JStr ''message''),
                                             (''response'', JStr ''hello'')])))
               (sendMessage page_open)) =
     [\<lparr>type = ''user'', content = JStr ''hi'', timestamp = ''09:00''\<rparr>,
      \<lparr>type = ''bot'', content = JStr ''hello'', timestamp = ''09:00''\<rparr>]"
  using persistent_scenario [of page_open 0]
  by (simp add: page_open_eq field_def ready_def)

subsection \<open>Settings round trip\<close>

lemma valid_settings_shape:
  assumes "valid_settings s"
  obtains t n p where
    "s = [(''temperature'', JNum t), (''maxLength'', JNum n), (''useWebSocket'', JBool p)]"
proof -
  from assms have keys: "map fst s = [''temperature'', ''maxLength'', ''useWebSocket'']"
    by (simp add: valid_settings_def)
  then obtain v1 v2 v3 where s: "s = [(''temperature'', v1), (''maxLength'', v2), (''useWebSocket'', v3)]"
    by (auto simp: map_eq_Cons_conv)
  from assms s obtain t where "v1 = JNum t"
    by (cases v1) (simp_all add: valid_settings_def field_def)
  moreover from assms s obtain n where "v2 = JNum n"
    by (cases v2) (simp_all add: valid_settings_def field_def)
  moreover from assms s obtain p where "v3 = JBool p"
    by (cases v3) (simp_all add: valid_settings_def field_def)
  ultimately show thesis
    using s that by blast
qed

lemma saved_settings:
  "map_of (localStorage (saveSettings w)) ''chatbot-settings'' =
     Some (JSON_stringify (JObj (settings w)))"
  by (simp add: saveSettings_def AList.update_conv')

text \<open>
  C2. For every valid Settings value held by the page, saving it and then loading yields
  exactly that value: \<^verbatim>\<open>loadSettings\<close>, run on what \<^verbatim>\<open>saveSettings\<close> stored, sets
  \<^verbatim>\<open>state.settings\<close> to the saved value, from any page whose settings are valid, and
  so does the next page load, which starts from the defaults.
\<close>

theorem settings_round_trip:
  assumes "valid_settings (settings w)" and "valid_settings (settings w0)"
  shows "loadSettings (w0\<lparr>localStorage := localStorage (saveSettings w)\<rparr>) =
           Inr (w0\<lparr>localStorage := localStorage (saveSettings w), settings := settings w\<rparr>) \<and>
         settings (step Start (fresh (localStorage (saveSettings w)) nodes now)) = settings w"
proof -
  from assms(1) obtain t n p where
    s: "settings w = [(''temperature'', JNum t), (''maxLength'', JNum n), (''useWebSocket'', JBool p)]"
    by (rule valid_settings_shape)
  from assms(2) obtain t0 n0 p0 where
    s0: "settings w0 = [(''temperature'', JNum t0), (''maxLength'', JNum n0), (''useWebSocket'', JBool p0)]"
    by (rule valid_settings_shape)
  have str: "JSON_stringify (JObj (settings w)) = Json (JObj (settings w))"
    by (simp add: s JSON_stringify_def)
  have load: "loadSettings (w0\<lparr>localStorage := localStorage (saveSettings w)\<rparr>) =
           Inr (w0\<lparr>localStorage := localStorage (saveSettings w), settings := settings w\<rparr>)"
    by (simp add: loadSettings_def saved_settings str)
      (simp add: s s0 spread_def)
  have "loadSettings (fresh (localStorage (saveSettings w)) nodes now) =
      Inr ((fresh (localStorage (saveSettings w)) nodes now)\<lparr>settings := settings w\<rparr>)"
    by (simp add: loadSettings_def fresh_def saved_settings str)
      (simp add: s spread_def)
  then have "settings (step Start (fresh (localStorage (saveSettings w)) nodes now)) = settings w"
    by (simp add: init_def checkApiHealth_def connectWebSocket_def updateConnectionStatus_def)
  with load show ?thesis
    by simp
qed

theorem settings_round_trip_witness:
  "valid_settings [(''temperature'', JNum 1.5), (''maxLength'', JNum 256), (''useWebSocket'', JBool False)] \<and>
   settings (step Start
      (fresh (localStorage (step (UseWebSocketChange False)
                 (step (MaxLengthInput 256) (step (TemperatureInput 1.5) page_open))))
         [WelcomeSection True] ''10:00'')) =
     [(''temperature'', JNum 1.5), (''maxLength'', JNum 256), (''useWebSocket'', JBool False)]"
  using settings_round_trip [of
      "step (UseWebSocketChange False) (step (MaxLengthInput 256) (step (TemperatureInput 1.5) page_open))"
      page_open "[WelcomeSection True]" "''10:00''"]
  by (simp add: page_open_eq valid_settings_def field_def temperature_input_def maxLength_input_def
      useWebSocket_change_def saveSettings_def disconnectWebSocket_def updateConnectionStatus_def
      Let_def)

subsection \<open>Reconnection\<close>

lemma page_switched_off_eq:
  "page_switched_off =
    \<lparr>messages = [], isTyping = JBool False, websocket = None,
     settings = [(''temperature'', JNum 0.7), (''maxLength'', JNum 1000), (''useWebSocket'', JBool False)],
     messageInput = [], chatContainer = [WelcomeSection True], connectionStatus = False,
     sockets = [CLOSED], blocked = False, frames = [],
     requests = [\<lparr>http_method = ''GET'', url = ''http://localhost:8000/'', headers = [], body = None\<rparr>],
     awaiting = [HealthReply], timers = [(5000, Reconnect)],
     localStorage = [(''chatbot-settings'', Json (JObj [(''temperature'', JNum 0.7),
        (''maxLength'', JNum 1000), (''useWebSocket'', JBool False)]))],
     clock = ''09:00'', next_el = 0\<rparr>"
  by (simp add: page_switched_off_def handler_defs)

text \<open>
  C3. The claim fails on the code at this input. The socket closes while the preference
  is set, so \<^verbatim>\<open>onclose\<close> schedules the retry after the fixed delay. The user then
  switches the preference off, which calls \<^verbatim>\<open>disconnectWebSocket\<close>; the timer stays
  pending. When it fires, \<^verbatim>\<open>connectWebSocket\<close> runs without testing the preference and
  makes a new socket: a reconnection attempt after \<^verbatim>\<open>disconnect()\<close>, with the
  preference off.
\<close>

theorem retry_fires_after_disconnect:
  "field (settings page_switched_off) ''useWebSocket'' = JBool False \<and>
   websocket page_switched_off = None \<and>
   sockets page_switched_off = [CLOSED] \<and>
   timers page_switched_off = [(reconnect_delay, Reconnect)] \<and>
   sockets (step (Timeout 0) page_switched_off) = [CLOSED, CONNECTING] \<and>
   websocket (step (Timeout 0) page_switched_off) = Some 1 \<and>
   field (settings (step (Timeout 0) page_switched_off)) ''useWebSocket'' = JBool False"
  by (simp add: page_switched_off_eq handler_defs)

subsection \<open>Opening the socket\<close>

text \<open>
  C6, as stated, fails while the socket is connecting: the guard of
  \<^verbatim>\<open>connectWebSocket\<close> tests for OPEN only, so a call made while the stored socket is
  still connecting makes a second socket and stores it in place of the first. The last
  line reaches that state through the handlers: a retry timer fires while the socket
  made by switching the preference back on is still connecting.
\<close>

theorem connect_while_connecting:
  "websocket page_connecting = Some 0 \<and>
   ready page_connecting 0 = Some CONNECTING \<and>
   sockets (connectWebSocket page_connecting) = [CONNECTING, CONNECTING] \<and>
   websocket (connectWebSocket page_connecting) = Some 1 \<and>
   sockets (run [Start, WsClose 0, UseWebSocketChange False, UseWebSocketChange True, Timeout 0]
              (fresh [] [WelcomeSection True] ''09:00'')) = [CLOSED, CONNECTING, CONNECTING]"
  by (simp add: page_connecting_eq handler_defs)

text \<open>
  C6, amended. \<^verbatim>\<open>connectWebSocket\<close> is a no-op exactly when the stored socket is open.
  In every other state (none stored, connecting, closing or closed) it makes a new socket
  in state CONNECTING and stores its handle, unless the constructor raises, in which case
  only the connection status is set to disconnected.
\<close>

theorem connect_guard:
  "(websocket_open w \<longrightarrow> connectWebSocket w = w) \<and>
   (\<not> websocket_open w \<and> \<not> blocked w \<longrightarrow>
      connectWebSocket w =
        w\<lparr>sockets := sockets w @ [CONNECTING], websocket := Some (length (sockets w))\<rparr>) \<and>
   (\<not> websocket_open w \<and> blocked w \<longrightarrow> connectWebSocket w = w\<lparr>connectionStatus := False\<rparr>)"
  by (simp add: connectWebSocket_def updateConnectionStatus_def)

theorem connect_guard_witness:
  "websocket_open page_open \<and> connectWebSocket page_open = page_open \<and>
   \<not> websocket_open page_connecting \<and> \<not> blocked page_connecting \<and>
   connectWebSocket page_connecting =
     page_connecting\<lparr>sockets := [CONNECTING, CONNECTING], websocket := Some 1\<rparr> \<and>
   \<not> websocket_open (page_connecting\<lparr>blocked := True\<rparr>) \<and>
   connectWebSocket (page_connecting\<lparr>blocked := True\<rparr>) =
     page_connecting\<lparr>blocked := True, connectionStatus := False\<rparr>"
  using connect_guard [of page_open] connect_guard [of page_connecting]
    connect_guard [of "page_connecting\<lparr>blocked := True\<rparr>"]
  by (simp add: page_open_eq page_connecting_eq websocket_open_def ready_def)

subsection \<open>Inbound frames that are not events\<close>

text \<open>
  C5, as stated, fails. A frame whose \<^verbatim>\<open>type\<close> is none of the three tags is not a
  TransportEvent, and the handler ignores it: the state is unchanged and no error notice
  is on the page. A frame tagged \<^verbatim>\<open>message\<close> that carries no text is not a
  TransportEvent either, and the handler appends it to the log, with no content.
\<close>

theorem unrecognised_frame_handling:
  "spec_decode (Json (JObj [(''type'', JStr ''ping'')])) = None \<and>
   ready page_open 0 = Some OPEN \<and>
   step (WsMessage 0 (Json (JObj [(''type'', JStr ''ping'')]))) page_open = page_open \<and>
   filter is_error_el (chatContainer page_open) = [] \<and>
   spec_decode (Json (JObj [(''type'', JStr ''message'')])) = None \<and>
   messages (step (WsMessage 0 (Json (JObj [(''type'', JStr ''message'')]))) page_open) =
     messages page_open @ [\<lparr>type = ''bot'', content = JUndefined, timestamp = ''09:00''\<rparr>]"
  by (simp add: page_open_eq handler_defs)

lemma unknown_tag_step: "\<not> known_tag d \<Longrightarrow> step (WsMessage h d) w = w"
proof (cases "frame_tag d")
  case None
  then show ?thesis
    using onmessage_untagged [of d w] by auto
next
  case (Some t)
  assume "\<not> known_tag d"
  with Some show ?thesis
    by (simp add: known_tag_def onmessage_tagged)
qed

lemma spec_decode_known: "spec_decode d \<noteq> None \<Longrightarrow> known_tag d"
proof (cases d)
  case (Json v)
  assume "spec_decode d \<noteq> None"
  with Json show ?thesis
    by (cases v) (auto simp: known_tag_def frame_tag_def field_def split: if_splits)
next
  case (Plain s)
  assume "spec_decode d \<noteq> None"
  with Plain show ?thesis
    by simp
qed

text \<open>
  C5, amended. What the handler does with an inbound frame, a frame that is not a
  TransportEvent included, depends on its \<^verbatim>\<open>type\<close> alone. A frame that is not JSON,
  or whose \<^verbatim>\<open>type\<close> is none of typing, message and error, is not a TransportEvent
  and changes nothing: the log is as before and no error notice is emitted. A frame tagged
  typing only sets the busy flag to its \<^verbatim>\<open>isTyping\<close> value, whatever that is. A
  frame tagged error leaves the log as it is and emits exactly one error notice, with its
  \<^verbatim>\<open>error\<close> value, whatever that is. A frame tagged message appends one entry to
  the log, with its \<^verbatim>\<open>response\<close> value as content, whatever that is, and emits no
  notice.
\<close>

theorem inbound_frame_effects:
  "(\<not> known_tag d \<longrightarrow> spec_decode d = None \<and> step (WsMessage h d) w = w) \<and>
   (ready w h = Some OPEN \<longrightarrow>
      (frame_tag d = Some (JStr ''typing'') \<longrightarrow>
         step (WsMessage h d) w = w\<lparr>isTyping := frame_prop d ''isTyping''\<rparr>) \<and>
      (frame_tag d = Some (JStr ''error'') \<longrightarrow>
         step (WsMessage h d) w =
           w\<lparr>chatContainer := chatContainer w @ [ErrorEl (next_el w) (frame_prop d ''error'')],
             timers := timers w @ [(5000, RemoveEl (next_el w))],
             next_el := Suc (next_el w),
             isTyping := JBool False\<rparr>) \<and>
      (frame_tag d = Some (JStr ''message'') \<longrightarrow>
         step (WsMessage h d) w =
           w\<lparr>isTyping := JBool False,
             messages := messages w @
               [\<lparr>type = ''bot'', content = frame_prop d ''response'', timestamp = clock w\<rparr>],
             chatContainer := chatContainer w @
               [MessageEl \<lparr>type = ''bot'', content = frame_prop d ''response'',
                           timestamp = clock w\<rparr>]\<rparr>))"
proof (intro conjI impI)
  assume "\<not> known_tag d"
  then show "spec_decode d = None"
    using spec_decode_known [of d] by blast
next
  assume "\<not> known_tag d"
  then show "step (WsMessage h d) w = w"
    by (rule unknown_tag_step)
next
  assume "ready w h = Some OPEN" and "frame_tag d = Some (JStr ''typing'')"
  then show "step (WsMessage h d) w = w\<lparr>isTyping := frame_prop d ''isTyping''\<rparr>"
    by (simp add: onmessage_tagged setTyping_def)
next
  assume "ready w h = Some OPEN" and "frame_tag d = Some (JStr ''error'')"
  then show "step (WsMessage h d) w =
           w\<lparr>chatContainer := chatContainer w @ [ErrorEl (next_el w) (frame_prop d ''error'')],
             timers := timers w @ [(5000, RemoveEl (next_el w))],
             next_el := Suc (next_el w),
             isTyping := JBool False\<rparr>"
    by (simp add: onmessage_tagged setTyping_def showError_def)
next
  assume "ready w h = Some OPEN" and "frame_tag d = Some (JStr ''message'')"
  then show "step (WsMessage h d) w =
           w\<lparr>isTyping := JBool False,
             messages := messages w @
               [\<lparr>type = ''bot'', content = frame_prop d ''response'', timestamp = clock w\<rparr>],
             chatContainer := chatContainer w @
               [MessageEl \<lparr>type = ''bot'', content = frame_prop d ''response'',
                           timestamp = clock w\<rparr>]\<rparr>"
    by (simp add: onmessage_tagged setTyping_def addMessage_def Let_def)
qed

theorem inbound_frame_effects_witness:
  "\<not> known_tag (Json (JObj [(''type'', JStr ''ping'')])) \<and>
   step (WsMessage 0 (Json (JObj [(''type'', JStr ''ping'')]))) page_open = page_open \<and>
   \<not> known_tag (Plain ''pong'') \<and>
   step (WsMessage 0 (Plain ''pong'')) page_open = page_open \<and>
   \<not> known_tag (Json JNull) \<and>
   step (WsMessage 0 (Json JNull)) page_open = page_open \<and>
   ready page_open 0 = Some OPEN \<and>
   spec_decode (Json (JObj [(''type'', JStr ''typing''), (''isTyping'', JNum 1)])) = None \<and>
   step (WsMessage 0 (Json (JObj [(''type'', JStr ''typing''), (''isTyping'', JNum 1)]))) page_open =
     page_open\<lparr>isTyping := JNum 1\<rparr> \<and>
   spec_decode (Json (JObj [(''type'', JStr ''error''), (''error'', JNum 503)])) = None \<and>
   chatContainer (step (WsMessage 0 (Json (JObj [(''type'', JStr ''error''), (''error'', JNum 503)])))
      page_open) = [WelcomeSection True, ErrorEl 0 (JNum 503)] \<and>
   messages (step (WsMessage 0 (Json (JObj [(''type'', JStr ''error''), (''error'', JNum 503)])))
      page_open) = [] \<and>
   spec_decode (Json (JObj [(''type'', JStr ''message''), (''response'', JNull)])) = None \<and>
   messages (step (WsMessage 0 (Json (JObj [(''type'', JStr ''message''), (''response'', JNull)])))
      page_open) = [\<lparr>type = ''bot'', content = JNull, timestamp = ''09:00''\<rparr>]"
  using inbound_frame_effects [of "Json (JObj [(''type'', JStr ''ping'')])" 0 page_open]
    inbound_frame_effects [of "Plain ''pong''" 0 page_open]
    inbound_frame_effects [of "Json JNull" 0 page_open]
    inbound_frame_effects [of "Json (JObj [(''type'', JStr ''typing''), (''isTyping'', JNum 1)])" 0 page_open]
    inbound_frame_effects [of "Json (JObj [(''type'', JStr ''error''), (''error'', JNum 503)])" 0 page_open]
    inbound_frame_effects [of "Json (JObj [(''type'', JStr ''message''), (''response'', JNull)])" 0 page_open]
  by (simp add: known_tag_def frame_tag_def frame_prop_def field_def page_open_eq ready_def)

subsection \<open>The conversation log\<close>

lemma shown_append: "shown (xs @ ys) = shown xs @ shown ys"
  by (induction xs rule: shown.induct) simp_all

lemma shown_hide_welcome: "shown (hide_welcome xs) = shown xs"
  by (induction xs rule: hide_welcome.induct) simp_all

lemma shown_remove: "shown (filter (\<lambda>x. \<not> is_el n x) xs) = shown xs"
  by (induction xs rule: shown.induct) simp_all

lemma log_kept_refl: "log_kept w w"
  by (simp add: log_kept_def)

lemma log_kept_trans: "log_kept w w' \<Longrightarrow> log_kept w' w'' \<Longrightarrow> log_kept w w''"
  by (auto simp: log_kept_def)

lemma log_kept_same:
  "messages w' = messages w \<Longrightarrow> shown (chatContainer w') = shown (chatContainer w) \<Longrightarrow> log_kept w w'"
  by (simp add: log_kept_def)

lemma log_kept_addMessage: "log_kept w (addMessage ty c w)"
  by (simp add: log_kept_def addMessage_def Let_def shown_append)

lemma log_kept_showError: "log_kept w (showError m w)"
  by (simp add: log_kept_def showError_def shown_append)

lemma log_kept_setTyping: "log_kept w (setTyping v w)"
  by (simp add: log_kept_def setTyping_def)

lemma log_kept_sendViaRestAPI: "log_kept w (sendViaRestAPI msg w)"
  by (simp add: log_kept_def sendViaRestAPI_def setTyping_def Let_def)

lemma log_kept_resume: "log_kept w (sendViaRestAPI_resume r w)"
  by (auto simp: sendViaRestAPI_resume_def split: sum.splits
      intro: log_kept_trans [OF log_kept_addMessage log_kept_setTyping]
        log_kept_trans [OF log_kept_showError log_kept_setTyping])

lemma log_kept_sendViaWebSocket: "log_kept w (sendViaWebSocket msg w)"
proof (cases "websocket_send msg w")
  case (Inl e)
  then show ?thesis
    by (simp add: sendViaWebSocket_def log_kept_trans [OF log_kept_showError log_kept_sendViaRestAPI])
next
  case (Inr w')
  then have "w' = w \<or> (\<exists>h d. w' = w\<lparr>frames := frames w @ [(h, d)]\<rparr>)"
    by (auto simp: websocket_send_def ws_send_def split: option.splits readyState.splits)
  then show ?thesis
    using Inr by (auto simp: sendViaWebSocket_def log_kept_def)
qed

lemma log_kept_prepared: "log_kept w (prepared w)"
  by (simp add: log_kept_def prepared_def addMessage_def Let_def shown_append shown_hide_welcome)

lemma log_kept_sendMessage: "log_kept w (sendMessage w)"
proof (cases "trim (messageInput w) \<noteq> [] \<and> \<not> truthy (isTyping w)")
  case True
  then show ?thesis
    by (auto simp: sendMessage_accepted
        intro: log_kept_trans [OF log_kept_prepared log_kept_sendViaWebSocket]
          log_kept_trans [OF log_kept_prepared log_kept_sendViaRestAPI])
next
  case False
  then show ?thesis
    by (auto simp: sendMessage_def log_kept_refl)
qed

lemma log_kept_connect: "log_kept w (connectWebSocket w)"
  by (simp add: log_kept_def connectWebSocket_def updateConnectionStatus_def)

lemma log_kept_disconnect: "log_kept w (disconnectWebSocket w)"
  by (simp add: log_kept_def disconnectWebSocket_def updateConnectionStatus_def split: option.splits)

lemma log_kept_saveSettings: "log_kept w (saveSettings w)"
  by (simp add: log_kept_def saveSettings_def)

lemma map_sum_id_Inr: "map_sum id f x = Inr y \<Longrightarrow> \<exists>v. x = Inr v \<and> y = f v"
  by (cases x) auto

lemma log_kept_onmessage: "ws_onmessage d w = Inr w' \<Longrightarrow> log_kept w w'"
  by (auto simp: ws_onmessage_def log_kept_refl split: sum.splits if_splits
      dest!: map_sum_id_Inr
      intro: log_kept_setTyping log_kept_trans [OF log_kept_setTyping log_kept_addMessage]
        log_kept_trans [OF log_kept_showError log_kept_setTyping])

lemma log_kept_init: "init w = Inr w' \<Longrightarrow> log_kept w w'"
  by (auto simp: init_def loadSettings_def checkApiHealth_def connectWebSocket_def
      updateConnectionStatus_def log_kept_def split: sum.splits option.splits if_splits)

lemma log_kept_health: "log_kept w (checkApiHealth_resume r w)"
  by (auto simp: checkApiHealth_resume_def log_kept_refl log_kept_showError
      split: fetch_result.splits sum.splits)

lemma log_kept_settle:
  "\<not> reset_done (Settled i r) w \<Longrightarrow> log_kept w (settle i r w)"
  apply (cases "i < length (awaiting w)")
   apply (simp_all add: settle_def Let_def log_kept_refl)
  apply (cases "awaiting w ! i")
    apply (simp_all add: reset_done_def)
    apply (rule log_kept_trans [OF _ log_kept_resume])
    apply (simp add: log_kept_def)
   apply (cases r)
    apply (simp_all add: resetConversation_resume_def)
    apply (rule log_kept_trans [OF _ log_kept_showError])
    apply (simp add: log_kept_def)
   apply (simp add: log_kept_def)
  apply (rule log_kept_trans [OF _ log_kept_health])
  apply (simp add: log_kept_def)
  done

lemma settle_reset:
  "reset_done (Settled i r) w \<Longrightarrow>
     messages (settle i r w) = [] \<and> shown (chatContainer (settle i r w)) = []"
  by (auto simp: reset_done_def settle_def Let_def resetConversation_resume_def showSuccess_def
      split: fetch_result.splits)

lemma log_kept_timeout: "log_kept w (timeout i w)"
  by (auto simp: timeout_def Let_def log_kept_def connectWebSocket_def updateConnectionStatus_def
      shown_remove split: callback.splits)

lemma log_kept_step: "\<not> reset_done e w \<Longrightarrow> log_kept w (step e w)"
proof (cases e)
  case Start
  then show ?thesis
    by (auto simp: log_kept_refl log_kept_init split: sum.splits)
next
  case Send
  then show ?thesis
    by (simp add: log_kept_sendMessage)
next
  case (UseWebSocketChange b)
  have "log_kept w (saveSettings (w\<lparr>settings := AList.update ''useWebSocket'' (JBool b) (settings w)\<rparr>))"
    by (simp add: log_kept_def saveSettings_def)
  then show ?thesis
    using UseWebSocketChange
    by (auto simp: useWebSocket_change_def Let_def
        intro: log_kept_trans [OF _ log_kept_connect] log_kept_trans [OF _ log_kept_disconnect])
next
  case (Settled i r)
  assume "\<not> reset_done e w"
  then show ?thesis
    using Settled by (simp add: log_kept_settle)
next
  case (Timeout i)
  then show ?thesis
    by (simp add: log_kept_timeout)
next
  case (WsMessage h d)
  then show ?thesis
    by (auto simp: log_kept_refl log_kept_onmessage split: sum.splits)
qed (simp_all add: log_kept_def temperature_input_def maxLength_input_def saveSettings_def
    resetConversation_def ws_onopen_def ws_onerror_def ws_onclose_def updateConnectionStatus_def
    Let_def)

text \<open>
  C7, as stated, fails: \<^verbatim>\<open>addMessage\<close> is not the only mutator. A confirmed reset
  whose request succeeds assigns the empty list to \<^verbatim>\<open>state.messages\<close>, removing the
  entries appended before.
\<close>

theorem reset_empties_log:
  "messages (sendMessage page_open) =
     [\<lparr>type = ''user'', content = JStr ''hi'', timestamp = ''09:00''\<rparr>] \<and>
   messages (run [Reset True, Settled 1 (Response 200 (Json (JObj [])))] (sendMessage page_open)) = []"
  by (simp add: page_open_eq handler_defs)

text \<open>
  C7, amended. Every event other than the success of a confirmed reset leaves the entries
  of the log in place and unchanged and only adds at its end; the success of a reset
  empties it. If the chat container displayed the log before an event, it displays it
  after: insertion order is display order. Two appends of the same content store two
  entries.
\<close>

theorem log_append_or_reset:
  "(if reset_done e w then messages (step e w) = []
    else prefix (messages w) (messages (step e w))) \<and>
   (shown (chatContainer w) = messages w \<longrightarrow>
      shown (chatContainer (step e w)) = messages (step e w)) \<and>
   messages (addMessage ty c (addMessage ty c w)) =
     messages w @ [\<lparr>type = ty, content = c, timestamp = clock w\<rparr>,
                   \<lparr>type = ty, content = c, timestamp = clock w\<rparr>]"
proof (cases "reset_done e w")
  case True
  then obtain i r where e: "e = Settled i r"
    by (cases e) (simp_all add: reset_done_def)
  with True settle_reset [of i r w] show ?thesis
    by (simp add: addMessage_def Let_def)
next
  case False
  then have "log_kept w (step e w)"
    by (rule log_kept_step)
  with False show ?thesis
    by (simp add: log_kept_def addMessage_def Let_def)
qed

theorem log_append_or_reset_witness:
  "\<not> reset_done Send page_open \<and>
   prefix (messages page_open) (messages (step Send page_open)) \<and>
   shown (chatContainer page_open) = messages page_open \<and>
   shown (chatContainer (step Send page_open)) = messages (step Send page_open) \<and>
   reset_done (Settled 1 (Response 200 (Json (JObj [])))) (step (Reset True) (sendMessage page_open)) \<and>
   messages (step (Settled 1 (Response 200 (Json (JObj [])))) (step (Reset True) (sendMessage page_open))) = [] \<and>
   shown (chatContainer (step (Settled 1 (Response 200 (Json (JObj []))))
            (step (Reset True) (sendMessage page_open)))) = []"
  using log_append_or_reset [of Send page_open]
    log_append_or_reset [of "Settled 1 (Response 200 (Json (JObj [])))"
      "step (Reset True) (sendMessage page_open)"]
  by (simp add: page_open_eq reset_done_def handler_defs)

end
